theory Spec2Isabelle
  imports Main "HOL-Library.Word"
begin

section \<open>The SFTP client of \<^verbatim>\<open>client.go\<close>\<close>

text \<open>
  \<^verbatim>\<open>client.go\<close> is the client of a multiplexed request/response protocol: two pump
  goroutines move packets between the byte streams and the channels \<^verbatim>\<open>incoming\<close> and
  \<^verbatim>\<open>outgoing\<close>, \<^verbatim>\<open>NewClient\<close> runs the handshake and then starts a dispatcher
  goroutine, and the public operations send a request and wait on a response channel.

  The embedding is sequential. What the goroutines of the other side of a channel do is
  an input of the function that reads the channel: the frames the reader pump publishes
  are a list, the outcomes of the dispatcher's \<^verbatim>\<open>select\<close> are a list of events, and a
  channel operation that can never complete is the outcome \<open>Blocks\<close>.
\<close>

subsection \<open>Values\<close>

type_synonym uint32 = "32 word"
type_synonym byte = "8 word"

text \<open>
  A Go \<^verbatim>\<open>error\<close> value, as far as the program can observe it: the text its
  \<^verbatim>\<open>Error()\<close> method returns. \<^verbatim>\<open>nil\<close> is \<open>None\<close> of \<open>error option\<close>.
\<close>

datatype error = Error string

fun text_of :: "error \<Rightarrow> string" where
  "text_of (Error s) = s"

text \<open>The three ways a call can end: it returns, it waits forever, or it panics.\<close>

datatype 'a outcome = Returns 'a | Blocks | Panics

text \<open>
  Modelled from the spec: the types of package \<^verbatim>\<open>sshfxp\<close> are not among the source
  files. A \<^verbatim>\<open>Packet\<close> is "an opaque length-prefixed unit of the wire format" that
  "carries a type discriminant"; \<^verbatim>\<open>handleMessage\<close> reads its fields \<^verbatim>\<open>Length\<close> and
  \<^verbatim>\<open>Type\<close>.
\<close>

record packet =
  Length :: uint32
  Type :: byte
  Payload :: "byte list"

text \<open>
  Modelled from the spec: a directory entry; its shape is left to the protocol
  extension layer, so only a name and a size are kept.
\<close>

datatype file_info = FileInfo string nat

text \<open>
  Modelled from the spec: \<^verbatim>\<open>sshfxp.Message\<close>, "a closed set of variants
  (handshake-init, handshake-version, open-request, open-directory-request,
  handle-response, status-response, read-directory-request, ...)", with the fields
  \<^verbatim>\<open>client.go\<close> reads and writes: \<^verbatim>\<open>Init.Version\<close>, \<^verbatim>\<open>Version.Version\<close>,
  \<^verbatim>\<open>OpenDir.Path\<close>, \<^verbatim>\<open>ReadDir.Handle\<close>, \<^verbatim>\<open>Handle.Handle\<close>, \<^verbatim>\<open>Status.Error\<close> and
  \<^verbatim>\<open>Status.Message\<close>. The first argument of a correlatable variant is its request
  id; the two handshake variants have none. \<open>sshfxp_Name\<close> is the entry list a server
  answers a read-directory request with.
\<close>

datatype message =
    sshfxp_Init uint32
  | sshfxp_Version uint32
  | sshfxp_Open uint32 string
  | sshfxp_OpenDir uint32 string
  | sshfxp_ReadDir uint32 string
  | sshfxp_Handle uint32 string
  | sshfxp_Status uint32 uint32 string
  | sshfxp_Name uint32 "file_info list"

text \<open>
  The interface \<^verbatim>\<open>sshfxp.Header\<close>: \<open>GetID m = None\<close> when the variant does not
  implement it (the type assertion in \<^verbatim>\<open>send\<close> fails), and \<open>SetID\<close> stamps the id.
\<close>

fun GetID :: "message \<Rightarrow> uint32 option" where
  "GetID (sshfxp_Init v) = None"
| "GetID (sshfxp_Version v) = None"
| "GetID (sshfxp_Open i p) = Some i"
| "GetID (sshfxp_OpenDir i p) = Some i"
| "GetID (sshfxp_ReadDir i h) = Some i"
| "GetID (sshfxp_Handle i h) = Some i"
| "GetID (sshfxp_Status i e m) = Some i"
| "GetID (sshfxp_Name i es) = Some i"

fun SetID :: "uint32 \<Rightarrow> message \<Rightarrow> message" where
  "SetID i (sshfxp_Init v) = sshfxp_Init v"
| "SetID i (sshfxp_Version v) = sshfxp_Version v"
| "SetID i (sshfxp_Open j p) = sshfxp_Open i p"
| "SetID i (sshfxp_OpenDir j p) = sshfxp_OpenDir i p"
| "SetID i (sshfxp_ReadDir j h) = sshfxp_ReadDir i h"
| "SetID i (sshfxp_Handle j h) = sshfxp_Handle i h"
| "SetID i (sshfxp_Status j e m) = sshfxp_Status i e m"
| "SetID i (sshfxp_Name j es) = sshfxp_Name i es"

text \<open>
  The codec is an external collaborator and a parameter of every function below:
  \<^verbatim>\<open>Packet.Encode\<close>, \<^verbatim>\<open>Packet.Decode\<close>, and what the verb \<^verbatim>\<open>%#v\<close> prints for a
  message and for a packet.
\<close>

record codec =
  Encode :: "message \<Rightarrow> error + packet"
  Decode :: "packet \<Rightarrow> error + message"
  GoString_msg :: "message \<Rightarrow> string"
  GoString_pkt :: "packet \<Rightarrow> string"

subsection \<open>Formatting\<close>

text \<open>The verb \<^verbatim>\<open>%d\<close> on an unsigned integer: its decimal digits.\<close>

definition digit :: "nat \<Rightarrow> char" where
  "digit d = ''0123456789'' ! d"

fun fmt_d :: "nat \<Rightarrow> string" where
  "fmt_d n = (if n < 10 then [digit n] else fmt_d (n div 10) @ [digit (n mod 10)])"

declare fmt_d.simps [simp del]

datatype log_entry = Infof string | Errorf string

subsection \<open>The router\<close>

text \<open>
  Modelled from the spec: the router (\<^verbatim>\<open>NewRouter\<close>, \<^verbatim>\<open>Router.Get\<close>,
  \<^verbatim>\<open>Router.Resolve\<close>) is not among the source files. It is "a mapping from id to
  PendingRequest, plus a monotonically increasing id generator"; a pending request has "a
  single-use delivery slot for exactly one Message". The slots are the cells of a list,
  a response channel is the index of its cell, and an empty cell is \<open>None\<close>.
\<close>

record router =
  next_id :: uint32
  table :: "uint32 \<rightharpoonup> nat"
  slots :: "message option list"

text \<open>Modelled from the spec: \<^verbatim>\<open>NewRouter\<close>, a router with no outstanding request.\<close>

definition NewRouter :: router where
  "NewRouter = \<lparr>next_id = 0, table = Map.empty, slots = []\<rparr>"

text \<open>
  Modelled from the spec: Reserve "allocates a fresh unique id and an associated
  single-delivery response slot; inserts into the table; never blocks".
\<close>

definition Get :: "router \<Rightarrow> uint32 \<times> nat \<times> router" where
  "Get r =
     (let i = next_id r; ch = length (slots r)
      in (i, ch, r\<lparr>next_id := i + 1, table := (table r)(i \<mapsto> ch), slots := slots r @ [None]\<rparr>))"

text \<open>
  Modelled from the spec: the RoutingError, the error of a "response with an id that has
  no matching outstanding request". The spec gives it no text; the text here names the id.
\<close>

definition RoutingError :: "uint32 \<Rightarrow> error" where
  "RoutingError i = Error (''no pending request with id '' @ fmt_d (unat i))"

text \<open>
  Modelled from the spec: Resolve "extracts the message's correlation id (if the variant
  is correlatable); looks it up; if found, delivers the message into that entry's slot
  and removes the entry; if not found (unknown or already-resolved id), returns a
  RoutingError and makes no other change". The spec does not say what a message without
  an id does; here it is an error and changes nothing.
\<close>

definition Resolve :: "router \<Rightarrow> message \<Rightarrow> error option \<times> router" where
  "Resolve r m =
     (case GetID m of
        None \<Rightarrow> (Some (Error ''message carries no request id''), r)
      | Some i \<Rightarrow>
          (case table r i of
             None \<Rightarrow> (Some (RoutingError i), r)
           | Some ch \<Rightarrow> (None, r\<lparr>table := (table r)(i := None), slots := (slots r)[ch := Some m]\<rparr>)))"

subsection \<open>The client\<close>

datatype goroutine = NotStarted | Running | Exited

text \<open>
  The struct \<^verbatim>\<open>Client\<close> with the state of what it owns. \<open>outgoing\<close> lists the
  packets the writer pump has taken from the channel \<^verbatim>\<open>cli.outgoing\<close>, oldest first;
  \<open>outgoing_closed\<close> says whether the channel has been closed; \<open>writer_receiving\<close>
  says whether the writer pump still receives from it (the channel is unbuffered, so a
  send completes only when it does). \<open>writer\<close>, \<open>reader\<close> and \<open>dispatcher\<close> are the
  three goroutines \<^verbatim>\<open>NewClient\<close> starts.

  The lines written with logrus are kept for each goroutine apart, oldest first, because
  nothing orders a line of one goroutine among the lines of another: \<open>log\<close> holds the
  lines of the caller's goroutine and of the dispatcher, \<open>writer_log\<close> and
  \<open>reader_log\<close> the line each pump goroutine writes when it ends.

  The counter of \<^verbatim>\<open>cli.wg\<close> is not a field: \<^verbatim>\<open>Add\<close> comes before each \<^verbatim>\<open>go\<close>
  statement (lines 40 and 73) and each goroutine defers \<^verbatim>\<open>Done\<close> (lines 42, 49 and 76),
  so the counter is the number of goroutines that are \<open>Running\<close>.
\<close>

record client =
  reader_closed :: bool
  writer_closed :: bool
  outgoing :: "packet list"
  outgoing_closed :: bool
  writer_receiving :: bool
  ioErr :: "error option"
  router :: router
  version :: uint32
  writer :: goroutine
  reader :: goroutine
  dispatcher :: goroutine
  log :: "log_entry list"
  writer_log :: "log_entry list"
  reader_log :: "log_entry list"

definition logf :: "log_entry \<Rightarrow> client \<Rightarrow> client" where
  "logf e cli = cli\<lparr>log := log cli @ [e]\<rparr>"

text \<open>
  \<^verbatim>\<open>close(cli.outgoing)\<close>: closing a closed channel panics; closing an open one makes
  the writer pump stop.
\<close>

definition close_outgoing :: "client \<Rightarrow> client outcome" where
  "close_outgoing cli =
     (if outgoing_closed cli then Panics
      else Returns (cli\<lparr>outgoing_closed := True, writer_receiving := False\<rparr>))"

text \<open>
  The end of the writer goroutine (lines 41 to 46), once \<^verbatim>\<open>writeConn\<close> has returned:
  the outcome is sent to \<^verbatim>\<open>cli.errch\<close>, which has room for it (its content is the
  \<open>Errch\<close> events of the dispatcher), and the deferred calls write the line and call
  \<^verbatim>\<open>wg.Done()\<close>. Nothing happens when the goroutine has ended before.
\<close>

definition writer_exits :: "client \<Rightarrow> client" where
  "writer_exits cli =
     (if writer cli = Running
      then cli\<lparr>writer := Exited, writer_receiving := False,
               writer_log := writer_log cli @ [Infof ''SFTP client writer exited'']\<rparr>
      else cli)"

text \<open>The end of the reader goroutine (lines 48 to 53), in the same way.\<close>

definition reader_exits :: "client \<Rightarrow> client" where
  "reader_exits cli =
     (if reader cli = Running
      then cli\<lparr>reader := Exited,
               reader_log := reader_log cli @ [Infof ''SFTP client reader exited'']\<rparr>
      else cli)"

text \<open>
  \<^verbatim>\<open>cli.wg.Wait()\<close>: it returns when no goroutine of the client is running, and waits
  otherwise.
\<close>

definition wg_Wait :: "client \<Rightarrow> client outcome" where
  "wg_Wait cli =
     (if writer cli \<noteq> Running \<and> reader cli \<noteq> Running \<and> dispatcher cli \<noteq> Running
      then Returns cli else Blocks)"

text \<open>\<^verbatim>\<open>Wait\<close> (lines 104 to 107).\<close>

definition Wait :: "client \<Rightarrow> client outcome" where
  "Wait cli = wg_Wait cli"

text \<open>
  \<^verbatim>\<open>send\<close> (lines 109 to 128). The result is the response channel (\<open>None\<close> is the
  nil channel) and the error. The id is reserved before the message is encoded, and a
  send on a closed channel panics.
\<close>

definition send :: "codec \<Rightarrow> client \<Rightarrow> message \<Rightarrow> ((nat option \<times> error option) \<times> client) outcome" where
  "send c cli x =
     (let (res, x1, cli1) =
            (case GetID x of
               Some old \<Rightarrow>
                 (let (i, ch, r) = Get (router cli) in (Some ch, SetID i x, cli\<lparr>router := r\<rparr>))
             | None \<Rightarrow> (None, x, cli))
      in case Encode c x1 of
           Inl err \<Rightarrow> Returns ((None, Some err), cli1)
         | Inr pkt \<Rightarrow>
             if outgoing_closed cli1 then Panics
             else if \<not> writer_receiving cli1 then Blocks
             else Returns ((res, None), cli1\<lparr>outgoing := outgoing cli1 @ [pkt]\<rparr>))"

text \<open>\<^verbatim>\<open>handleMessage\<close> (lines 130 to 142).\<close>

definition handleMessage :: "codec \<Rightarrow> client \<Rightarrow> packet \<Rightarrow> error option \<times> client" where
  "handleMessage c cli msg =
     (let cli1 = logf (Infof (''Got message: Len='' @ fmt_d (unat (Length msg)) @ '' Type='' @
                   fmt_d (unat (Type msg)) @ '': '' @ GoString_pkt c msg)) cli
      in case Decode c msg of
           Inl err \<Rightarrow> (Some (Error (''failed to decode message: '' @ text_of err)), cli1)
         | Inr payload \<Rightarrow>
             (case Resolve (router cli1) payload of
                (Some err, r) \<Rightarrow> (Some err, cli1\<lparr>router := r\<rparr>)
              | (None, r) \<Rightarrow> (None, cli1\<lparr>router := r\<rparr>)))"

text \<open>
  \<^verbatim>\<open>DoHandshake\<close> (lines 144 to 171). \<open>rd\<close> lists the frames the reader pump publishes
  on \<^verbatim>\<open>cli.incoming\<close>, in order; the receive takes the first one and waits forever
  when there is none.
\<close>

definition DoHandshake :: "codec \<Rightarrow> client \<Rightarrow> packet list \<Rightarrow> (error option \<times> client) outcome" where
  "DoHandshake c cli rd =
     (let init = (3 :: uint32) in
      case send c cli (sshfxp_Init init) of
        Panics \<Rightarrow> Panics
      | Blocks \<Rightarrow> Blocks
      | Returns ((ch, Some err), cli1) \<Rightarrow> Returns (Some err, cli1)
      | Returns ((ch, None), cli1) \<Rightarrow>
          (case rd of
             [] \<Rightarrow> Blocks
           | pkt # rest \<Rightarrow>
               (case Decode c pkt of
                  Inl err \<Rightarrow> Returns (Some err, cli1)
                | Inr (sshfxp_Version v) \<Rightarrow>
                    if v \<noteq> init then Returns (Some (Error ''unsupported version''), cli1)
                    else Returns (None, cli1\<lparr>version := v\<rparr>)
                | Inr other \<Rightarrow> Returns (Some (Error ''unexpected message received''), cli1))))"

text \<open>\<^verbatim>\<open>Version\<close> (lines 173 to 175).\<close>

definition Version :: "client \<Rightarrow> uint32" where
  "Version cli = version cli"

subsection \<open>The dispatcher and construction\<close>

text \<open>
  One outcome of the \<^verbatim>\<open>select\<close> of the dispatcher goroutine (lines 80 to 94): a packet
  received from \<^verbatim>\<open>cli.incoming\<close>, or the outcome of a pump received from
  \<^verbatim>\<open>cli.errch\<close> (\<open>None\<close> is a nil error).
\<close>

datatype event = Incoming packet | Errch "error option"

fun is_Incoming :: "event \<Rightarrow> bool" where
  "is_Incoming (Incoming p) = True"
| "is_Incoming (Errch e) = False"

text \<open>
  The goroutine of lines 75 to 99, run on the \<^verbatim>\<open>select\<close> outcomes \<open>evs\<close>. When the
  events are used up the goroutine is waiting in its \<^verbatim>\<open>select\<close>, and the client is
  returned as it is then. The first outcome received from \<^verbatim>\<open>cli.errch\<close> ends the loop:
  the events after it are never received.
\<close>

fun dispatcher_loop :: "codec \<Rightarrow> client \<Rightarrow> event list \<Rightarrow> client outcome" where
  "dispatcher_loop c cli [] = Returns cli"
| "dispatcher_loop c cli (Incoming msg # evs) =
     (case handleMessage c cli msg of
        (Some err, cli1) \<Rightarrow>
          dispatcher_loop c (logf (Errorf (''failed to handle message: '' @ text_of err)) cli1) evs
      | (None, cli1) \<Rightarrow> dispatcher_loop c cli1 evs)"
| "dispatcher_loop c cli (Errch err # evs) =
     (let cli1 = (case err of
                    Some e \<Rightarrow> logf (Errorf (''received error: '' @ text_of e)) (cli\<lparr>ioErr := Some e\<rparr>)
                  | None \<Rightarrow> cli);
          cli2 = logf (Infof ''received nil on errch'') cli1
      in case close_outgoing cli2 of
           Returns cli3 \<Rightarrow> Returns (cli3\<lparr>dispatcher := Exited\<rparr>)
         | Blocks \<Rightarrow> Blocks
         | Panics \<Rightarrow> Panics)"

text \<open>What the dispatcher goroutine does with the events: nothing unless it is running.\<close>

definition run_dispatcher :: "codec \<Rightarrow> client \<Rightarrow> event list \<Rightarrow> client outcome" where
  "run_dispatcher c cli evs = (if dispatcher cli = Running then dispatcher_loop c cli evs else Returns cli)"

text \<open>
  \<^verbatim>\<open>NewClient\<close> (lines 30 to 102); \<open>new_Client\<close> is the struct of lines 31 to 38
  once the two pump goroutines of lines 40 to 53 have been started. The streams \<^verbatim>\<open>r\<close>
  and \<^verbatim>\<open>w\<close> are a fresh writer pump, which receives from \<^verbatim>\<open>cli.outgoing\<close>, and the
  frames \<open>rd\<close> the reader pump publishes. The result is the pointer returned to the
  caller (\<open>None\<close> is \<^verbatim>\<open>nil\<close>) and the final state of the struct the call built,
  which the caller cannot reach when the pointer is nil.

  Modelled from the spec: the pumps \<^verbatim>\<open>readConn\<close> and \<^verbatim>\<open>writeConn\<close> are not among
  the source files. The writer pump stops "when the outbound queue is closed or on write
  error" and the reader pump "on stream error or close". So once lines 59 to 62 have
  closed the queue and both streams, both pump goroutines end, each with its line and its
  \<^verbatim>\<open>Done\<close>, and \<^verbatim>\<open>cli.wg.Wait()\<close> in line 64 finds no goroutine running. The
  frames of \<open>rd\<close> after the first are never received on this path, and by the
  spec's words the reader pump ends on the close all the same.
\<close>

definition new_Client :: client where
  "new_Client = \<lparr>reader_closed = False, writer_closed = False, outgoing = [],
                  outgoing_closed = False, writer_receiving = True, ioErr = None,
                  router = NewRouter, version = 0, writer = Running, reader = Running,
                  dispatcher = NotStarted, log = [], writer_log = [], reader_log = []\<rparr>"

definition NewClient :: "codec \<Rightarrow> packet list \<Rightarrow> (client option \<times> client) outcome" where
  "NewClient c rd =
     (let cli = new_Client
      in case DoHandshake c cli rd of
           Panics \<Rightarrow> Panics
         | Blocks \<Rightarrow> Blocks
         | Returns (Some err, cli1) \<Rightarrow>
             (case close_outgoing (logf (Errorf (''SFTP handshake failed: '' @ text_of err)) cli1) of
                Panics \<Rightarrow> Panics
              | Blocks \<Rightarrow> Blocks
              | Returns cli2 \<Rightarrow>
                  (case wg_Wait (reader_exits (writer_exits
                          (cli2\<lparr>reader_closed := True, writer_closed := True\<rparr>))) of
                     Panics \<Rightarrow> Panics
                   | Blocks \<Rightarrow> Blocks
                   | Returns cli3 \<Rightarrow> Returns (None, cli3\<lparr>ioErr := Some err\<rparr>)))
         | Returns (None, cli1) \<Rightarrow>
             (let cli2 = (logf (Infof (''SFTP-handeshake complete. Using SFTP version '' @
                            fmt_d (unat (version cli1)))) cli1)\<lparr>dispatcher := Running\<rparr>
              in Returns (Some cli2, cli2)))"

subsection \<open>The public operations\<close>

text \<open>
  A receive from a response channel: the content of its slot. The nil channel and an
  empty slot give nothing, and the receive waits.
\<close>

definition recv :: "client \<Rightarrow> nat option \<Rightarrow> message option" where
  "recv cli ch =
     (case ch of
        None \<Rightarrow> None
      | Some n \<Rightarrow> if n < length (slots (router cli)) then slots (router cli) ! n else None)"

text \<open>
  \<^verbatim>\<open>OpenDir\<close> (lines 177 to 200). \<open>evs\<close> is what the dispatcher goroutine receives
  while the call waits for its response; when the slot is still empty after them the call
  is blocked.
\<close>

definition OpenDir :: "codec \<Rightarrow> client \<Rightarrow> string \<Rightarrow> event list \<Rightarrow> ((string \<times> error option) \<times> client) outcome" where
  "OpenDir c cli path evs =
     (case send c cli (sshfxp_OpenDir 0 path) of
        Panics \<Rightarrow> Panics
      | Blocks \<Rightarrow> Blocks
      | Returns ((res_chan, Some err), cli1) \<Rightarrow> Returns (([], Some err), cli1)
      | Returns ((res_chan, None), cli1) \<Rightarrow>
          (case run_dispatcher c cli1 evs of
             Panics \<Rightarrow> Panics
           | Blocks \<Rightarrow> Blocks
           | Returns cli2 \<Rightarrow>
               (case recv cli2 res_chan of
                  None \<Rightarrow> Blocks
                | Some (sshfxp_Handle i h) \<Rightarrow> Returns ((h, None), cli2)
                | Some (sshfxp_Status i e m) \<Rightarrow>
                    Returns (([], Some (Error (fmt_d (unat e) @ '' - '' @ m))), cli2)
                | Some res \<Rightarrow>
                    Returns (([], Some (Error (''unexpected response: '' @ GoString_msg c res))), cli2))))"

text \<open>
  \<^verbatim>\<open>ReadDir\<close> (lines 202 to 216). The nil slice is the empty list.
\<close>

definition ReadDir :: "codec \<Rightarrow> client \<Rightarrow> string \<Rightarrow> event list \<Rightarrow> ((file_info list \<times> error option) \<times> client) outcome" where
  "ReadDir c cli handle evs =
     (case send c cli (sshfxp_ReadDir 0 handle) of
        Panics \<Rightarrow> Panics
      | Blocks \<Rightarrow> Blocks
      | Returns ((resCh, Some err), cli1) \<Rightarrow> Returns (([], Some err), cli1)
      | Returns ((resCh, None), cli1) \<Rightarrow>
          (case run_dispatcher c cli1 evs of
             Panics \<Rightarrow> Panics
           | Blocks \<Rightarrow> Blocks
           | Returns cli2 \<Rightarrow>
               (case recv cli2 resCh of
                  None \<Rightarrow> Blocks
                | Some res \<Rightarrow>
                    Returns (([], None), logf (Infof (''Got: '' @ GoString_msg c res)) cli2))))"


subsection \<open>A codec and a server to run the client on\<close>

text \<open>
  A small codec, used where a statement is evaluated on a concrete exchange: it encodes
  the three requests the client sends and decodes the six frames below.
\<close>

definition pkt_version3 :: packet where
  "pkt_version3 = \<lparr>Length = 5, Type = 2, Payload = [0, 0, 0, 3]\<rparr>"

definition pkt_version4 :: packet where
  "pkt_version4 = \<lparr>Length = 5, Type = 2, Payload = [0, 0, 0, 4]\<rparr>"

definition pkt_handle0 :: packet where
  "pkt_handle0 = \<lparr>Length = 12, Type = 102, Payload = [0, 0, 0, 0, 0, 0, 0, 3, 97, 98, 99]\<rparr>"

definition pkt_handle7 :: packet where
  "pkt_handle7 = \<lparr>Length = 12, Type = 102, Payload = [0, 0, 0, 7, 0, 0, 0, 3, 97, 98, 99]\<rparr>"

definition pkt_status0 :: packet where
  "pkt_status0 = \<lparr>Length = 9, Type = 101, Payload = [0, 0, 0, 0, 0, 0, 0, 2]\<rparr>"

definition pkt_name0 :: packet where
  "pkt_name0 = \<lparr>Length = 9, Type = 104, Payload = [0, 0, 0, 0, 0, 0, 0, 1]\<rparr>"

definition demo_Encode :: "message \<Rightarrow> error + packet" where
  "demo_Encode m =
     (case m of
        sshfxp_Init v \<Rightarrow> Inr \<lparr>Length = 5, Type = 1, Payload = [0, 0, 0, ucast v]\<rparr>
      | sshfxp_OpenDir i p \<Rightarrow> Inr \<lparr>Length = 5, Type = 11, Payload = [0, 0, 0, ucast i]\<rparr>
      | sshfxp_ReadDir i h \<Rightarrow> Inr \<lparr>Length = 5, Type = 12, Payload = [0, 0, 0, ucast i]\<rparr>
      | other \<Rightarrow> Inl (Error ''not a request''))"

definition demo_Decode :: "packet \<Rightarrow> error + message" where
  "demo_Decode p =
     (if p = pkt_version3 then Inr (sshfxp_Version 3)
      else if p = pkt_version4 then Inr (sshfxp_Version 4)
      else if p = pkt_handle0 then Inr (sshfxp_Handle 0 ''abc'')
      else if p = pkt_handle7 then Inr (sshfxp_Handle 7 ''abc'')
      else if p = pkt_status0 then Inr (sshfxp_Status 0 2 ''no such file'')
      else if p = pkt_name0 then Inr (sshfxp_Name 0 [FileInfo ''a.txt'' 7])
      else Inl (Error ''malformed packet''))"

definition demo_codec :: codec where
  "demo_codec = \<lparr>Encode = demo_Encode, Decode = demo_Decode,
                  GoString_msg = (\<lambda>m. ''message''), GoString_pkt = (\<lambda>p. ''packet'')\<rparr>"

text \<open>A codec that encodes nothing.\<close>

definition failing_codec :: codec where
  "failing_codec = demo_codec\<lparr>Encode := (\<lambda>m. Inl (Error ''encode failed''))\<rparr>"

text \<open>The client \<^verbatim>\<open>NewClient\<close> returns after the exchange init(3), version(3).\<close>

definition ready :: client where
  "ready = \<lparr>reader_closed = False, writer_closed = False,
             outgoing = [\<lparr>Length = 5, Type = 1, Payload = [0, 0, 0, 3]\<rparr>],
             outgoing_closed = False, writer_receiving = True, ioErr = None,
             router = NewRouter, version = 3, writer = Running, reader = Running,
             dispatcher = Running,
             log = [Infof ''SFTP-handeshake complete. Using SFTP version 3''],
             writer_log = [], reader_log = []\<rparr>"

text \<open>
  That client after its stream has ended: the reader pump has reported \<^verbatim>\<open>EOF\<close> and
  ended, the dispatcher has received the error, closed the outgoing channel and ended, and
  the writer pump has ended on the closed channel.
\<close>

definition closed :: client where
  "closed = \<lparr>reader_closed = False, writer_closed = False,
              outgoing = [\<lparr>Length = 5, Type = 1, Payload = [0, 0, 0, 3]\<rparr>],
              outgoing_closed = True, writer_receiving = False,
              ioErr = Some (Error ''EOF''),
              router = NewRouter, version = 3, writer = Exited, reader = Exited,
              dispatcher = Exited,
              log = [Infof ''SFTP-handeshake complete. Using SFTP version 3'',
                     Errorf ''received error: EOF'', Infof ''received nil on errch''],
              writer_log = [Infof ''SFTP client writer exited''],
              reader_log = [Infof ''SFTP client reader exited'']\<rparr>"

text \<open>The struct \<^verbatim>\<open>NewClient\<close> leaves behind after the exchange init(3), version(4).\<close>

definition failed :: client where
  "failed = \<lparr>reader_closed = True, writer_closed = True,
              outgoing = [\<lparr>Length = 5, Type = 1, Payload = [0, 0, 0, 3]\<rparr>],
              outgoing_closed = True, writer_receiving = False,
              ioErr = Some (Error ''unsupported version''),
              router = NewRouter, version = 0, writer = Exited, reader = Exited,
              dispatcher = NotStarted,
              log = [Errorf ''SFTP handshake failed: unsupported version''],
              writer_log = [Infof ''SFTP client writer exited''],
              reader_log = [Infof ''SFTP client reader exited'']\<rparr>"

section \<open>Properties\<close>

subsection \<open>Auxiliary facts\<close>

lemma send_no_header:
  assumes "GetID x = None"
  shows "send c cli x =
     (case Encode c x of
        Inl err \<Rightarrow> Returns ((None, Some err), cli)
      | Inr pkt \<Rightarrow>
          if outgoing_closed cli then Panics
          else if \<not> writer_receiving cli then Blocks
          else Returns ((None, None), cli\<lparr>outgoing := outgoing cli @ [pkt]\<rparr>))"
  using assms by (simp add: send_def)

lemma DoHandshake_Returns_None:
  assumes "DoHandshake c cli rd = Returns (None, cli1)"
  shows "version cli1 = 3"
  using assms
  by (auto simp: DoHandshake_def send_no_header Let_def
      split: sum.splits if_splits list.splits message.splits)

lemma NewClient_demo_ready: "NewClient demo_codec [pkt_version3] = Returns (Some ready, ready)"
  by (simp add: NewClient_def new_Client_def DoHandshake_def send_no_header demo_codec_def
      demo_Encode_def demo_Decode_def ready_def logf_def fmt_d.simps digit_def Let_def)

subsection \<open>The negotiated version\<close>

text \<open>
  C10. Whenever \<^verbatim>\<open>NewClient\<close> returns a client, \<^verbatim>\<open>Version()\<close> of that client is 3:
  the handshake asks for version 3 and records the server's version only when it is
  equal to the one asked for.
\<close>

theorem NewClient_version_is_3:
  assumes "NewClient c rd = Returns (Some cli, st)"
  shows "Version cli = 3"
proof -
  from assms obtain cli1 where h: "DoHandshake c new_Client rd = Returns (None, cli1)"
    and cli: "cli = (logf (Infof (''SFTP-handeshake complete. Using SFTP version '' @
                            fmt_d (unat (version cli1)))) cli1)\<lparr>dispatcher := Running\<rparr>"
    by (auto simp: NewClient_def Let_def close_outgoing_def
        split: outcome.splits option.splits if_splits)
  from h have "version cli1 = 3" by (rule DoHandshake_Returns_None)
  with cli show ?thesis by (simp add: Version_def logf_def)
qed

theorem NewClient_version_is_3_witness:
  "NewClient demo_codec [pkt_version3] = Returns (Some ready, ready) \<and> Version ready = 3"
  using NewClient_version_is_3 [OF NewClient_demo_ready] NewClient_demo_ready by simp

text \<open>
  C5. When \<^verbatim>\<open>init\<close> with version 3 is sent and the first frame received decodes to
  \<^verbatim>\<open>version(3)\<close>, the handshake returns nil and records 3 as the client's version;
  \<^verbatim>\<open>NewClient\<close> then returns a client whose dispatcher runs and whose
  \<^verbatim>\<open>Version()\<close> is 3.
\<close>

theorem handshake_version3_ready:
  assumes enc: "Encode c (sshfxp_Init 3) = Inr p0"
    and dec: "Decode c pkt = Inr (sshfxp_Version 3)"
    and live: "\<not> outgoing_closed cli0" "writer_receiving cli0"
  shows "DoHandshake c cli0 (pkt # rest) = Returns (None, cli0\<lparr>outgoing := outgoing cli0 @ [p0], version := 3\<rparr>)
    \<and> (\<exists>cli. NewClient c (pkt # rest) = Returns (Some cli, cli) \<and> Version cli = 3
          \<and> dispatcher cli = Running \<and> ioErr cli = None \<and> \<not> outgoing_closed cli)"
proof
  show "DoHandshake c cli0 (pkt # rest) = Returns (None, cli0\<lparr>outgoing := outgoing cli0 @ [p0], version := 3\<rparr>)"
    using enc dec live by (simp add: DoHandshake_def send_no_header)
next
  show "\<exists>cli. NewClient c (pkt # rest) = Returns (Some cli, cli) \<and> Version cli = 3
          \<and> dispatcher cli = Running \<and> ioErr cli = None \<and> \<not> outgoing_closed cli"
    using enc dec
    by (simp add: NewClient_def new_Client_def DoHandshake_def send_no_header Let_def
        Version_def logf_def)
qed

theorem handshake_version3_ready_witness:
  "DoHandshake demo_codec (ready\<lparr>outgoing := [], version := 0\<rparr>) [pkt_version3] = Returns (None, ready)
   \<and> NewClient demo_codec [pkt_version3] = Returns (Some ready, ready) \<and> Version ready = 3"
  using handshake_version3_ready [of demo_codec "\<lparr>Length = 5, Type = 1, Payload = [0, 0, 0, 3]\<rparr>"
      pkt_version3 "ready\<lparr>outgoing := [], version := 0\<rparr>" "[]"] NewClient_demo_ready
  by (simp add: demo_codec_def demo_Encode_def demo_Decode_def ready_def Version_def)

subsection \<open>A failed handshake\<close>



subsection \<open>The dispatcher loop\<close>

lemma handleMessage_frame:
  assumes "handleMessage c cli msg = (r, cli1)"
  shows "ioErr cli1 = ioErr cli \<and> outgoing_closed cli1 = outgoing_closed cli
    \<and> dispatcher cli1 = dispatcher cli \<and> outgoing cli1 = outgoing cli
    \<and> writer_receiving cli1 = writer_receiving cli \<and> version cli1 = version cli"
  using assms
  by (auto simp: handleMessage_def logf_def Let_def split: sum.splits prod.splits option.splits)

lemma dispatcher_loop_Incoming:
  "\<exists>cli1. (\<forall>evs. dispatcher_loop c cli (Incoming p # evs) = dispatcher_loop c cli1 evs)
     \<and> ioErr cli1 = ioErr cli \<and> outgoing_closed cli1 = outgoing_closed cli
     \<and> dispatcher cli1 = dispatcher cli"
proof (cases "handleMessage c cli p")
  case (Pair r cli1)
  note fr = handleMessage_frame [OF Pair]
  show ?thesis
  proof (cases r)
    case None
    with Pair fr show ?thesis by (intro exI [of _ cli1]) simp
  next
    case (Some err)
    with Pair fr show ?thesis
      by (intro exI [of _ "logf (Errorf (''failed to handle message: '' @ text_of err)) cli1"])
        (simp add: logf_def)
  qed
qed

lemma dispatcher_loop_prefix:
  assumes "\<forall>x\<in>set pre. is_Incoming x"
  shows "\<exists>cli1. dispatcher_loop c cli pre = Returns cli1
     \<and> (\<forall>evs. dispatcher_loop c cli (pre @ evs) = dispatcher_loop c cli1 evs)
     \<and> ioErr cli1 = ioErr cli \<and> outgoing_closed cli1 = outgoing_closed cli
     \<and> dispatcher cli1 = dispatcher cli"
  using assms
proof (induction pre arbitrary: cli)
  case Nil
  then show ?case by simp
next
  case (Cons x pre)
  then obtain p where x: "x = Incoming p" by (cases x) auto
  obtain cli1 where s: "\<forall>evs. dispatcher_loop c cli (Incoming p # evs) = dispatcher_loop c cli1 evs"
    and f: "ioErr cli1 = ioErr cli" "outgoing_closed cli1 = outgoing_closed cli"
      "dispatcher cli1 = dispatcher cli"
    using dispatcher_loop_Incoming [of c cli p] by blast
  from Cons.prems have "\<forall>x\<in>set pre. is_Incoming x" by simp
  from Cons.IH [OF this, of cli1] obtain cli2 where
    r: "dispatcher_loop c cli1 pre = Returns cli2"
    and k: "\<forall>evs. dispatcher_loop c cli1 (pre @ evs) = dispatcher_loop c cli2 evs"
    and g: "ioErr cli2 = ioErr cli1" "outgoing_closed cli2 = outgoing_closed cli1"
      "dispatcher cli2 = dispatcher cli1"
    by blast
  show ?case
    using x s r k f g by (intro exI [of _ cli2]) simp
qed

lemma dispatcher_loop_Errch:
  assumes "\<not> outgoing_closed cli"
  shows "dispatcher_loop c cli (Errch e # evs) =
     Returns ((case e of
                 Some x \<Rightarrow> cli\<lparr>ioErr := Some x, log := log cli @ [Errorf (''received error: '' @ text_of x),
                                                              Infof ''received nil on errch'']\<rparr>
               | None \<Rightarrow> cli\<lparr>log := log cli @ [Infof ''received nil on errch'']\<rparr>)
              \<lparr>outgoing_closed := True, writer_receiving := False, dispatcher := Exited\<rparr>)"
  using assms by (cases e) (simp_all add: close_outgoing_def logf_def Let_def)

text \<open>
  C7. When the dispatcher receives a packet that decodes to a message whose id has no
  entry in the router's table, \<^verbatim>\<open>handleMessage\<close> returns the routing error, the loop
  logs it and goes on with the next event: the client is as before but for the two log
  lines, so the dispatcher keeps running, the outgoing channel stays open and no session
  error is recorded.
\<close>

theorem unmatched_response_logged_loop_continues:
  assumes dec: "Decode c pkt = Inr m" and id: "GetID m = Some i"
    and unknown: "table (router cli) i = None"
  shows "handleMessage c cli pkt =
       (Some (RoutingError i),
        cli\<lparr>log := log cli @
          [Infof (''Got message: Len='' @ fmt_d (unat (Length pkt)) @ '' Type='' @
                  fmt_d (unat (Type pkt)) @ '': '' @ GoString_pkt c pkt)]\<rparr>)
    \<and> dispatcher_loop c cli (Incoming pkt # evs) =
        dispatcher_loop c
          (cli\<lparr>log := log cli @
             [Infof (''Got message: Len='' @ fmt_d (unat (Length pkt)) @ '' Type='' @
                     fmt_d (unat (Type pkt)) @ '': '' @ GoString_pkt c pkt),
              Errorf (''failed to handle message: '' @ text_of (RoutingError i))]\<rparr>) evs"
  using assms by (simp add: handleMessage_def Resolve_def logf_def Let_def)

theorem unmatched_response_logged_loop_continues_witness:
  "dispatcher_loop demo_codec ready [Incoming pkt_handle7, Incoming pkt_handle7] =
     Returns (ready\<lparr>log := log ready @
       [Infof ''Got message: Len=12 Type=102: packet'',
        Errorf ''failed to handle message: no pending request with id 7'',
        Infof ''Got message: Len=12 Type=102: packet'',
        Errorf ''failed to handle message: no pending request with id 7'']\<rparr>)"
proof -
  let ?step = "\<lambda>cli. cli\<lparr>log := log cli @
          [Infof (''Got message: Len='' @ fmt_d (unat (Length pkt_handle7)) @ '' Type='' @
                  fmt_d (unat (Type pkt_handle7)) @ '': '' @ GoString_pkt demo_codec pkt_handle7),
           Errorf (''failed to handle message: '' @ text_of (RoutingError 7))]\<rparr>"
  have d: "Decode demo_codec pkt_handle7 = Inr (sshfxp_Handle 7 ''abc'')"
    by (simp add: demo_codec_def demo_Decode_def pkt_handle7_def pkt_version3_def
        pkt_version4_def pkt_handle0_def)
  have g: "GetID (sshfxp_Handle 7 ''abc'') = Some 7"
    by simp
  have t1: "table (router ready) 7 = None"
    by (simp add: ready_def NewRouter_def)
  have t2: "table (router (?step ready)) 7 = None"
    by (simp add: ready_def NewRouter_def)
  have f: "fmt_d 12 = ''12''" "fmt_d 102 = ''102''" "fmt_d 7 = ''7''"
    by (simp_all add: fmt_d.simps digit_def)
  have "dispatcher_loop demo_codec ready [Incoming pkt_handle7, Incoming pkt_handle7] =
      dispatcher_loop demo_codec (?step ready) [Incoming pkt_handle7]"
    by (rule unmatched_response_logged_loop_continues [OF d g t1, THEN conjunct2])
  also have "\<dots> = dispatcher_loop demo_codec (?step (?step ready)) []"
    by (rule unmatched_response_logged_loop_continues [OF d g t2, THEN conjunct2])
  also have "\<dots> = Returns (ready\<lparr>log := log ready @
       [Infof ''Got message: Len=12 Type=102: packet'',
        Errorf ''failed to handle message: no pending request with id 7'',
        Infof ''Got message: Len=12 Type=102: packet'',
        Errorf ''failed to handle message: no pending request with id 7'']\<rparr>)"
    using f by (simp add: RoutingError_def pkt_handle7_def demo_codec_def)
  finally show ?thesis .
qed

text \<open>
  C9. The dispatcher writes \<^verbatim>\<open>ioErr\<close> at most once. While it receives packets only,
  \<^verbatim>\<open>ioErr\<close> keeps its value. At the first outcome it receives from \<^verbatim>\<open>errch\<close> it
  records the error (when not nil) and leaves the loop: the events after that outcome
  change nothing, and the goroutine, having exited, receives no later outcome.
\<close>

theorem ioErr_written_at_most_once:
  assumes pre: "\<forall>x\<in>set pre. is_Incoming x" and live: "\<not> outgoing_closed cli"
  shows "(\<exists>cli1. dispatcher_loop c cli pre = Returns cli1 \<and> ioErr cli1 = ioErr cli)
    \<and> (\<exists>cli2. dispatcher_loop c cli (pre @ Errch e # rest) = Returns cli2
          \<and> dispatcher_loop c cli (pre @ [Errch e]) = Returns cli2
          \<and> ioErr cli2 = (case e of Some x \<Rightarrow> Some x | None \<Rightarrow> ioErr cli)
          \<and> dispatcher cli2 = Exited
          \<and> (\<forall>evs. run_dispatcher c cli2 evs = Returns cli2))"
proof -
  from dispatcher_loop_prefix [OF pre, of c cli] obtain cli1 where
    r: "dispatcher_loop c cli pre = Returns cli1"
    and k: "\<forall>evs. dispatcher_loop c cli (pre @ evs) = dispatcher_loop c cli1 evs"
    and f: "ioErr cli1 = ioErr cli" "outgoing_closed cli1 = outgoing_closed cli"
    by blast
  from f live have o: "\<not> outgoing_closed cli1" by simp
  show ?thesis
    using r k f dispatcher_loop_Errch [OF o, of c e]
    by (cases e) (simp_all add: run_dispatcher_def)
qed

theorem ioErr_written_at_most_once_witness:
  "\<exists>cli2. dispatcher_loop demo_codec ready
       [Incoming pkt_handle7, Errch (Some (Error ''EOF'')), Errch (Some (Error ''broken pipe''))] = Returns cli2
     \<and> ioErr cli2 = Some (Error ''EOF'') \<and> dispatcher cli2 = Exited"
  using ioErr_written_at_most_once [of "[Incoming pkt_handle7]" ready demo_codec
      "Some (Error ''EOF'')" "[Errch (Some (Error ''broken pipe''))]"]
  by (auto simp: ready_def)

text \<open>
  C1, as the code has it. When the dispatcher receives an error from a pump it records
  the error, leaves the loop and closes the outgoing channel, which stops the writer
  pump. It makes no call on the router: the table and the response slots are as before.
\<close>

theorem pump_outcome_closes_outgoing:
  assumes "\<not> outgoing_closed cli"
  shows "\<exists>cli'. dispatcher_loop c cli (Errch (Some e) # evs) = Returns cli'
     \<and> ioErr cli' = Some e \<and> dispatcher cli' = Exited
     \<and> outgoing_closed cli' \<and> \<not> writer_receiving cli'
     \<and> router cli' = router cli \<and> (\<forall>ch. recv cli' ch = recv cli ch)"
proof -
  let ?cli' = "cli\<lparr>ioErr := Some e,
      log := log cli @ [Errorf (''received error: '' @ text_of e), Infof ''received nil on errch''],
      outgoing_closed := True, writer_receiving := False, dispatcher := Exited\<rparr>"
  have "dispatcher_loop c cli (Errch (Some e) # evs) = Returns ?cli'"
    using dispatcher_loop_Errch [OF assms, of c "Some e" evs] by (simp del: dispatcher_loop.simps)
  moreover have "router ?cli' = router cli"
    by simp
  then have "\<forall>ch. recv ?cli' ch = recv cli ch"
    by (simp add: recv_def split: option.splits)
  ultimately show ?thesis
    by (intro exI [of _ ?cli']) simp
qed

theorem pump_outcome_closes_outgoing_witness:
  "\<exists>cli'. dispatcher_loop demo_codec ready [Errch (Some (Error ''EOF''))] = Returns cli'
     \<and> ioErr cli' = Some (Error ''EOF'') \<and> outgoing_closed cli' \<and> router cli' = router ready"
  using pump_outcome_closes_outgoing [of ready demo_codec "Error ''EOF''" "[]"]
  by (auto simp: ready_def)

text \<open>
  C1 as stated fails: an \<^verbatim>\<open>OpenDir\<close> call that is waiting when a pump reports
  its error is never given a response, not even when the server's answer arrives later.
\<close>

theorem pending_request_not_aborted_counterexample:
  "OpenDir demo_codec ready ''/tmp'' [Errch (Some (Error ''EOF'')), Incoming pkt_handle0] = Blocks"
  by (simp add: OpenDir_def send_def Get_def ready_def NewRouter_def demo_codec_def
      demo_Encode_def run_dispatcher_def close_outgoing_def logf_def recv_def Let_def)

subsection \<open>Construction\<close>






subsection \<open>Sending on a closed queue\<close>

text \<open>
  C8, as the code has it. \<^verbatim>\<open>send\<close> does not look at the state of the session. Once
  the outgoing channel is closed, \<^verbatim>\<open>send\<close> of a message that encodes panics, and so do
  \<^verbatim>\<open>OpenDir\<close> and \<^verbatim>\<open>ReadDir\<close>; \<^verbatim>\<open>send\<close> of a message that does not encode returns
  the encoder's error and no response channel, and leaves the channel as it is.
\<close>

theorem send_on_closed_queue:
  assumes "outgoing_closed cli"
  shows "(\<forall>pkt. Encode c (case GetID x of Some old \<Rightarrow> SetID (next_id (router cli)) x | None \<Rightarrow> x) = Inr pkt
            \<longrightarrow> send c cli x = Panics)
    \<and> (\<forall>err. Encode c (case GetID x of Some old \<Rightarrow> SetID (next_id (router cli)) x | None \<Rightarrow> x) = Inl err
            \<longrightarrow> (\<exists>cli'. send c cli x = Returns ((None, Some err), cli')
                   \<and> outgoing cli' = outgoing cli \<and> outgoing_closed cli'))
    \<and> (\<forall>pkt. Encode c (sshfxp_OpenDir (next_id (router cli)) path) = Inr pkt
            \<longrightarrow> OpenDir c cli path evs = Panics)
    \<and> (\<forall>pkt. Encode c (sshfxp_ReadDir (next_id (router cli)) h) = Inr pkt
            \<longrightarrow> ReadDir c cli h evs' = Panics)"
  using assms
  by (cases "GetID x") (auto simp: send_def Get_def Let_def OpenDir_def ReadDir_def)

theorem send_on_closed_queue_witness:
  "send demo_codec closed (sshfxp_OpenDir 0 ''/tmp'') = Panics
   \<and> OpenDir demo_codec closed ''/tmp'' [] = Panics
   \<and> ReadDir demo_codec closed ''abc'' [] = Panics
   \<and> (\<exists>cli'. send failing_codec closed (sshfxp_OpenDir 0 ''/tmp'') =
          Returns ((None, Some (Error ''encode failed'')), cli')
        \<and> outgoing cli' = outgoing closed \<and> outgoing_closed cli')"
proof -
  have c: "outgoing_closed closed" by (simp add: closed_def)
  have n: "next_id (router closed) = 0" by (simp add: closed_def NewRouter_def)
  have e1: "Encode demo_codec (sshfxp_OpenDir 0 ''/tmp'') =
      Inr \<lparr>Length = 5, Type = 11, Payload = [0, 0, 0, 0]\<rparr>"
    and e2: "Encode demo_codec (sshfxp_ReadDir 0 ''abc'') =
      Inr \<lparr>Length = 5, Type = 12, Payload = [0, 0, 0, 0]\<rparr>"
    and e3: "Encode failing_codec (sshfxp_OpenDir 0 ''/tmp'') = Inl (Error ''encode failed'')"
    by (simp_all add: demo_codec_def demo_Encode_def failing_codec_def)
  from send_on_closed_queue [OF c, of demo_codec "sshfxp_OpenDir 0 ''/tmp''" "''/tmp''" "[]" "''abc''" "[]"]
    send_on_closed_queue [OF c, of failing_codec "sshfxp_OpenDir 0 ''/tmp''" "''/tmp''" "[]" "''abc''" "[]"]
    n e1 e2 e3
  show ?thesis by simp
qed

text \<open>
  C8 as stated fails: when the stream of the ready client ends, the reader pump reports
  the error, the dispatcher closes the outgoing channel and the writer pump ends; after
  that \<^verbatim>\<open>send\<close> of an \<^verbatim>\<open>OpenDir\<close> request panics, and so does \<^verbatim>\<open>OpenDir\<close>.
\<close>

theorem send_on_closed_queue_counterexample:
  "dispatcher_loop demo_codec (reader_exits ready) [Errch (Some (Error ''EOF''))] =
     Returns (closed\<lparr>writer := Running, writer_log := []\<rparr>)
   \<and> writer_exits (closed\<lparr>writer := Running, writer_log := []\<rparr>) = closed
   \<and> send demo_codec closed (sshfxp_OpenDir 0 ''/tmp'') = Panics
   \<and> OpenDir demo_codec closed ''/tmp'' [] = Panics"
  by (simp add: OpenDir_def send_def Get_def ready_def closed_def NewRouter_def demo_codec_def
      demo_Encode_def close_outgoing_def logf_def Let_def reader_exits_def writer_exits_def)

subsection \<open>Interpreting a response\<close>

lemma digit_is_digit: "d < 10 \<Longrightarrow> digit d \<in> set ''0123456789''"
  unfolding digit_def by (rule nth_mem) simp

lemma digit_inj:
  assumes "d < 10" "d' < 10" "digit d = digit d'"
  shows "d = d'"
proof -
  have "distinct ''0123456789''" by simp
  moreover have "d < length ''0123456789''" "d' < length ''0123456789''"
    using assms by simp_all
  ultimately show ?thesis
    using assms(3) unfolding digit_def by (simp only: nth_eq_iff_index_eq)
qed

lemma fmt_d_digits: "set (fmt_d n) \<subseteq> set ''0123456789''"
proof (induction n rule: fmt_d.induct)
  case (1 n)
  show ?case
  proof (cases "n < 10")
    case True
    then show ?thesis
      using digit_is_digit [of n] by (subst fmt_d.simps) simp
  next
    case False
    then show ?thesis
      using 1 digit_is_digit [of "n mod 10"] by (subst fmt_d.simps) simp
  qed
qed

lemma fmt_d_nonempty: "fmt_d n \<noteq> []"
  by (subst fmt_d.simps) simp

lemma fmt_d_length_1: "length (fmt_d n) = Suc 0 \<longleftrightarrow> n < 10"
proof (cases "n < 10")
  case True
  then show ?thesis by (simp add: fmt_d.simps [of n])
next
  case False
  have "fmt_d (n div 10) \<noteq> []" by (rule fmt_d_nonempty)
  then have "length (fmt_d (n div 10)) \<noteq> 0" by simp
  with False show ?thesis by (simp add: fmt_d.simps [of n])
qed

lemma fmt_d_inj: "fmt_d n = fmt_d n' \<Longrightarrow> n = n'"
proof (induction n arbitrary: n' rule: fmt_d.induct)
  case (1 n)
  show ?case
  proof (cases "n < 10")
    case True
    then have "length (fmt_d n) = 1" by (simp add: fmt_d_length_1)
    with "1.prems" have n': "n' < 10" by (simp add: fmt_d_length_1)
    from True n' "1.prems" have "digit n = digit n'"
      by (simp add: fmt_d.simps [of n] fmt_d.simps [of n'])
    with True n' show ?thesis by (rule digit_inj)
  next
    case False
    then have "length (fmt_d n) \<noteq> 1" by (simp add: fmt_d_length_1)
    with "1.prems" have n': "\<not> n' < 10" by (simp add: fmt_d_length_1)
    from False n' "1.prems"
    have eq: "fmt_d (n div 10) @ [digit (n mod 10)] = fmt_d (n' div 10) @ [digit (n' mod 10)]"
      by (simp add: fmt_d.simps [of n] fmt_d.simps [of n'])
    then have "fmt_d (n div 10) = fmt_d (n' div 10)" and d: "digit (n mod 10) = digit (n' mod 10)"
      by simp_all
    with False "1.IH" have "n div 10 = n' div 10" by blast
    moreover have "n mod 10 = n' mod 10"
      using d by (intro digit_inj) simp_all
    ultimately show ?thesis
      by (metis div_mult_mod_eq)
  qed
qed

lemma takeWhile_fmt_d:
  "takeWhile (\<lambda>ch. ch \<in> set ''0123456789'') (fmt_d n @ '' - '' @ m) = fmt_d n"
proof -
  have "\<And>ch. ch \<in> set (fmt_d n) \<Longrightarrow> ch \<in> set ''0123456789''"
    using fmt_d_digits [of n] by blast
  then have "takeWhile (\<lambda>ch. ch \<in> set ''0123456789'') (fmt_d n @ '' - '' @ m) =
      fmt_d n @ takeWhile (\<lambda>ch. ch \<in> set ''0123456789'') ('' - '' @ m)"
    by (rule takeWhile_append2)
  then show ?thesis by simp
qed

lemma status_text_inj:
  assumes "fmt_d n @ '' - '' @ m = fmt_d n' @ '' - '' @ m'"
  shows "n = n' \<and> m = m'"
proof -
  have "fmt_d n = takeWhile (\<lambda>ch. ch \<in> set ''0123456789'') (fmt_d n @ '' - '' @ m)"
    by (simp only: takeWhile_fmt_d)
  also have "\<dots> = takeWhile (\<lambda>ch. ch \<in> set ''0123456789'') (fmt_d n' @ '' - '' @ m')"
    by (simp only: assms)
  also have "\<dots> = fmt_d n'"
    by (simp only: takeWhile_fmt_d)
  finally have f: "fmt_d n = fmt_d n'" .
  then have "n = n'" by (rule fmt_d_inj)
  moreover from assms f have "m = m'" by simp
  ultimately show ?thesis ..
qed

text \<open>
  C4. When \<^verbatim>\<open>OpenDir\<close> has sent its request and a response is delivered to its
  slot: a \<^verbatim>\<open>Handle\<close> gives that handle and a nil error; a \<^verbatim>\<open>Status\<close> gives the
  empty string and an error whose text is the server's code in decimal, \<^verbatim>\<open>" - "\<close> and
  the server's message, a text from which both the code and the message can be read back;
  any other message gives the empty string and an error whose text starts with
  \<^verbatim>\<open>unexpected response\<close>.
\<close>

theorem OpenDir_interprets_response:
  assumes snd: "send c cli (sshfxp_OpenDir 0 path) = Returns ((res_chan, None), cli1)"
    and run: "run_dispatcher c cli1 evs = Returns cli2"
    and got: "recv cli2 res_chan = Some res"
  shows "(\<forall>i h. res = sshfxp_Handle i h \<longrightarrow> OpenDir c cli path evs = Returns ((h, None), cli2))
    \<and> (\<forall>i e m. res = sshfxp_Status i e m \<longrightarrow>
          OpenDir c cli path evs = Returns (([], Some (Error (fmt_d (unat e) @ '' - '' @ m))), cli2)
          \<and> (\<forall>(e' :: uint32) m'. fmt_d (unat e') @ '' - '' @ m' = fmt_d (unat e) @ '' - '' @ m \<longrightarrow>
                e' = e \<and> m' = m))
    \<and> ((\<forall>i h. res \<noteq> sshfxp_Handle i h) \<and> (\<forall>i e m. res \<noteq> sshfxp_Status i e m) \<longrightarrow>
          OpenDir c cli path evs =
            Returns (([], Some (Error (''unexpected response: '' @ GoString_msg c res))), cli2))"
proof (intro conjI allI impI)
  fix i h
  assume "res = sshfxp_Handle i h"
  with snd run got show "OpenDir c cli path evs = Returns ((h, None), cli2)"
    by (simp add: OpenDir_def)
next
  fix i e m
  assume "res = sshfxp_Status i e m"
  with snd run got
  show "OpenDir c cli path evs = Returns (([], Some (Error (fmt_d (unat e) @ '' - '' @ m))), cli2)"
    by (simp add: OpenDir_def)
next
  fix m m' and e e' :: uint32
  assume "fmt_d (unat e') @ '' - '' @ m' = fmt_d (unat e) @ '' - '' @ m"
  then have "unat e' = unat e \<and> m' = m" by (rule status_text_inj)
  then show "e' = e" and "m' = m" by (simp_all add: word_unat_eq_iff)
next
  assume "(\<forall>i h. res \<noteq> sshfxp_Handle i h) \<and> (\<forall>i e m. res \<noteq> sshfxp_Status i e m)"
  with snd run got
  show "OpenDir c cli path evs =
      Returns (([], Some (Error (''unexpected response: '' @ GoString_msg c res))), cli2)"
    by (cases res) (simp_all add: OpenDir_def)
qed

lemma demo_OpenDir_sent:
  "send demo_codec ready (sshfxp_OpenDir 0 ''/tmp'') =
     Returns ((Some 0, None),
       ready\<lparr>router := \<lparr>next_id = 1, table = [0 \<mapsto> 0], slots = [None]\<rparr>,
             outgoing := outgoing ready @ [\<lparr>Length = 5, Type = 11, Payload = [0, 0, 0, 0]\<rparr>]\<rparr>)"
  by (simp add: send_def Get_def ready_def NewRouter_def demo_codec_def demo_Encode_def)

lemma demo_response_delivered:
  assumes "Decode demo_codec p = Inr m" and "GetID m = Some 0"
  shows "\<exists>cli2. run_dispatcher demo_codec
       (ready\<lparr>router := \<lparr>next_id = 1, table = [0 \<mapsto> 0], slots = [None]\<rparr>,
              outgoing := outgoing ready @ [\<lparr>Length = 5, Type = 11, Payload = [0, 0, 0, 0]\<rparr>]\<rparr>)
       [Incoming p] = Returns cli2 \<and> recv cli2 (Some 0) = Some m"
  using assms
  by (simp add: run_dispatcher_def handleMessage_def Resolve_def logf_def recv_def ready_def Let_def)

theorem OpenDir_interprets_response_witness:
  "(\<exists>cli2. OpenDir demo_codec ready ''/tmp'' [Incoming pkt_handle0] = Returns ((''abc'', None), cli2))
   \<and> (\<exists>cli2. OpenDir demo_codec ready ''/tmp'' [Incoming pkt_status0] =
         Returns (([], Some (Error ''2 - no such file'')), cli2))
   \<and> (\<exists>cli2. OpenDir demo_codec ready ''/tmp'' [Incoming pkt_name0] =
         Returns (([], Some (Error ''unexpected response: message'')), cli2))"
proof (intro conjI)
  have "Decode demo_codec pkt_handle0 = Inr (sshfxp_Handle 0 ''abc'')"
    by (simp add: demo_codec_def demo_Decode_def pkt_handle0_def pkt_version3_def pkt_version4_def)
  from demo_response_delivered [OF this] obtain cli2 where
    "run_dispatcher demo_codec
       (ready\<lparr>router := \<lparr>next_id = 1, table = [0 \<mapsto> 0], slots = [None]\<rparr>,
              outgoing := outgoing ready @ [\<lparr>Length = 5, Type = 11, Payload = [0, 0, 0, 0]\<rparr>]\<rparr>)
       [Incoming pkt_handle0] = Returns cli2"
    and "recv cli2 (Some 0) = Some (sshfxp_Handle 0 ''abc'')"
    by auto
  from OpenDir_interprets_response [OF demo_OpenDir_sent this]
  show "\<exists>cli2. OpenDir demo_codec ready ''/tmp'' [Incoming pkt_handle0] = Returns ((''abc'', None), cli2)"
    by blast
next
  have "Decode demo_codec pkt_status0 = Inr (sshfxp_Status 0 2 ''no such file'')"
    by (simp add: demo_codec_def demo_Decode_def pkt_handle0_def pkt_version3_def pkt_version4_def
        pkt_status0_def pkt_handle7_def)
  from demo_response_delivered [OF this] obtain cli2 where
    "run_dispatcher demo_codec
       (ready\<lparr>router := \<lparr>next_id = 1, table = [0 \<mapsto> 0], slots = [None]\<rparr>,
              outgoing := outgoing ready @ [\<lparr>Length = 5, Type = 11, Payload = [0, 0, 0, 0]\<rparr>]\<rparr>)
       [Incoming pkt_status0] = Returns cli2"
    and "recv cli2 (Some 0) = Some (sshfxp_Status 0 2 ''no such file'')"
    by auto
  from OpenDir_interprets_response [OF demo_OpenDir_sent this]
  have "OpenDir demo_codec ready ''/tmp'' [Incoming pkt_status0] =
      Returns (([], Some (Error (fmt_d (unat (2 :: uint32)) @ '' - '' @ ''no such file''))), cli2)"
    by blast
  moreover have "fmt_d (unat (2 :: uint32)) = ''2''"
    by (simp add: fmt_d.simps digit_def)
  ultimately show "\<exists>cli2. OpenDir demo_codec ready ''/tmp'' [Incoming pkt_status0] =
         Returns (([], Some (Error ''2 - no such file'')), cli2)"
    by simp
next
  have "Decode demo_codec pkt_name0 = Inr (sshfxp_Name 0 [FileInfo ''a.txt'' 7])"
    by (simp add: demo_codec_def demo_Decode_def pkt_handle0_def pkt_version3_def pkt_version4_def
        pkt_status0_def pkt_handle7_def pkt_name0_def)
  from demo_response_delivered [OF this] obtain cli2 where
    "run_dispatcher demo_codec
       (ready\<lparr>router := \<lparr>next_id = 1, table = [0 \<mapsto> 0], slots = [None]\<rparr>,
              outgoing := outgoing ready @ [\<lparr>Length = 5, Type = 11, Payload = [0, 0, 0, 0]\<rparr>]\<rparr>)
       [Incoming pkt_name0] = Returns cli2"
    and "recv cli2 (Some 0) = Some (sshfxp_Name 0 [FileInfo ''a.txt'' 7])"
    by auto
  from OpenDir_interprets_response [OF demo_OpenDir_sent this]
  have "OpenDir demo_codec ready ''/tmp'' [Incoming pkt_name0] =
      Returns (([], Some (Error (''unexpected response: '' @
        GoString_msg demo_codec (sshfxp_Name 0 [FileInfo ''a.txt'' 7])))), cli2)"
    by blast
  then show "\<exists>cli2. OpenDir demo_codec ready ''/tmp'' [Incoming pkt_name0] =
         Returns (([], Some (Error ''unexpected response: message'')), cli2)"
    by (simp add: demo_codec_def)
qed

text \<open>
  C3. \<^verbatim>\<open>ReadDir\<close> on a handle whose response decodes to an entry list: the slot holds
  the list, and the call returns the nil slice and a nil error.
\<close>

theorem ReadDir_discards_response:
  "\<exists>cli'. ReadDir demo_codec ready ''abc'' [Incoming pkt_name0] = Returns (([], None), cli')
     \<and> recv cli' (Some 0) = Some (sshfxp_Name 0 [FileInfo ''a.txt'' 7])"
  by (simp add: ReadDir_def send_def Get_def ready_def NewRouter_def demo_codec_def
      demo_Encode_def demo_Decode_def run_dispatcher_def handleMessage_def Resolve_def
      logf_def recv_def Let_def pkt_name0_def pkt_version3_def pkt_version4_def pkt_handle0_def
      pkt_handle7_def pkt_status0_def)

end
